theory Spec2Isabelle
  imports Main
begin

section \<open>Data model\<close>

text \<open>
  The validator of \<^verbatim>\<open>fomod/validator/warnings.py\<close> reads an lxml element tree. An element
  has a tag, string attributes, a source line (\<^verbatim>\<open>None\<close> for an element that was not read
  from a file) and children. Nodes whose tag is not a string (comments, processing
  instructions) never match a tag tuple and are represented like any other unmatched node.
\<close>

datatype element =
  Element (tag: string) (attrib: "(string \<times> string) list") (sourceline: "nat option")
    (children: "element list")

text \<open>The exceptions that can travel through \<^verbatim>\<open>check_warnings\<close>.\<close>

datatype error =
    MissingFolderError string
  | MissingFileError string
  | ParseError string
  | ParserError string
  | WarningError string
  | TypeError string
  | KeyError string
  | OtherError string

text \<open>
  The collaborators imported from \<^verbatim>\<open>.utility\<close>, \<^verbatim>\<open>lxml.etree\<close> and \<^verbatim>\<open>os.path\<close>:
  \<^verbatim>\<open>check_fomod\<close>, \<^verbatim>\<open>check_file\<close>, \<^verbatim>\<open>etree.parse(...).getroot()\<close>, \<^verbatim>\<open>isdir\<close> and \<^verbatim>\<open>isfile\<close>.
  They are parameters of the model: the first three may raise, the last two answer from the
  state of the file system.
\<close>

record env =
  check_fomod :: "string \<Rightarrow> error + string"
  check_file :: "string \<Rightarrow> error + string"
  etree_parse :: "string \<Rightarrow> error + element"
  isdir :: "string \<Rightarrow> bool"
  isfile :: "string \<Rightarrow> bool"

text \<open>\<^verbatim>\<open>os.path.join\<close> of two strings (the POSIX flavour); three arguments fold to the left.\<close>

definition join :: "string \<Rightarrow> string \<Rightarrow> string" where
  "join a b =
     (if b \<noteq> [] \<and> hd b = CHR ''/'' then b
      else if a = [] \<or> last a = CHR ''/'' then a @ b
      else a @ ''/'' @ b)"

text \<open>\<^verbatim>\<open>elem.get(name)\<close>: the attribute's value, or \<^verbatim>\<open>None\<close>.\<close>

definition elem_get :: "element \<Rightarrow> string \<Rightarrow> string option" where
  "elem_get e name = map_of (attrib e) name"

text \<open>\<^verbatim>\<open>elem_root.iter()\<close>: the element itself, then its descendants, in document order.\<close>

fun iter :: "element \<Rightarrow> element list" where
  "iter (Element t a l cs) = Element t a l cs # concat (map iter cs)"

text \<open>
  The truth value of the argument \<^verbatim>\<open>elem_tree\<close> in \<^verbatim>\<open>if not elem_tree\<close>: \<^verbatim>\<open>None\<close> is false,
  and an lxml element is true exactly when it has a child (\<^verbatim>\<open>_Element.__bool__\<close>).
\<close>

fun py_bool_tree :: "element option \<Rightarrow> bool" where
  "py_bool_tree None = False"
| "py_bool_tree (Some e) = (children e \<noteq> [])"

subsection \<open>Conditions and their call protocol\<close>

text \<open>
  A rule's \<^verbatim>\<open>condition\<close> is a lambda of one parameter (\<^verbatim>\<open>elem\<close>) or of two
  (\<^verbatim>\<open>elem, x\<close>). Calling it with the wrong number of arguments raises \<^verbatim>\<open>TypeError\<close>.
\<close>

datatype condition =
    Lambda1 "element \<Rightarrow> error + bool"
  | Lambda2 "element \<Rightarrow> element list \<Rightarrow> error + bool"

fun call1 :: "condition \<Rightarrow> element \<Rightarrow> error + bool" where
  "call1 (Lambda1 f) elem = f elem"
| "call1 (Lambda2 f) elem =
     Inl (TypeError ''<lambda>() missing 1 required positional argument: x'')"

fun call2 :: "condition \<Rightarrow> element \<Rightarrow> element list \<Rightarrow> error + bool" where
  "call2 (Lambda2 f) elem xs = f elem xs"
| "call2 (Lambda1 f) elem xs =
     Inl (TypeError ''<lambda>() takes 1 positional argument but 2 were given'')"

text \<open>
  \<^verbatim>\<open>signature(condition).parameters\<close> is a mapping from parameter names to parameters;
  the source compares it with the integer \<^verbatim>\<open>2\<close>. Python's \<^verbatim>\<open>==\<close> between a mapping and
  an integer is false.
\<close>

datatype pyval = PyInt int | PyMapping "string list"

fun py_eq :: "pyval \<Rightarrow> pyval \<Rightarrow> bool" where
  "py_eq (PyInt a) (PyInt b) = (a = b)"
| "py_eq (PyMapping a) (PyMapping b) = (a = b)"
| "py_eq (PyInt a) (PyMapping b) = False"
| "py_eq (PyMapping a) (PyInt b) = False"

fun signature_parameters :: "condition \<Rightarrow> pyval" where
  "signature_parameters (Lambda1 f) = PyMapping [''elem'']"
| "signature_parameters (Lambda2 f) = PyMapping [''elem'', ''x'']"

subsection \<open>Insertion-ordered dictionaries\<close>

text \<open>
  A Python dictionary keeps its keys in insertion order; assigning to a key that is present
  keeps the key's position. It is modelled as an association list.
\<close>

fun dict_get :: "('k \<times> 'v) list \<Rightarrow> 'k \<Rightarrow> 'v option" where
  "dict_get [] k = None"
| "dict_get ((k', v) # d) k = (if k' = k then Some v else dict_get d k)"

fun dict_set :: "('k \<times> 'v) list \<Rightarrow> 'k \<Rightarrow> 'v \<Rightarrow> ('k \<times> 'v) list" where
  "dict_set [] k v = [(k, v)]"
| "dict_set ((k', v') # d) k v = (if k' = k then (k, v) # d else (k', v') # dict_set d k v)"

definition dict_keys :: "('k \<times> 'v) list \<Rightarrow> 'k list" where
  "dict_keys d = map fst d"

subsection \<open>Strings\<close>

text \<open>\<^verbatim>\<open>msg.replace("{}", t)\<close>: every occurrence of the slot, left to right.\<close>

fun replace_slot :: "string \<Rightarrow> string \<Rightarrow> string" where
  "replace_slot [] t = []"
| "replace_slot [c] t = [c]"
| "replace_slot (c # d # rest) t =
     (if c = CHR ''{'' \<and> d = CHR ''}'' then t @ replace_slot rest t
      else c # replace_slot (d # rest) t)"

definition digit_char :: "nat \<Rightarrow> char" where
  "digit_char d = ''0123456789'' ! d"

fun str_nat :: "nat \<Rightarrow> string" where
  "str_nat n = (if n < 10 then [digit_char n] else str_nat (n div 10) @ [digit_char (n mod 10)])"

declare str_nat.simps [simp del]

text \<open>\<^verbatim>\<open>str(elem.sourceline)\<close>.\<close>

fun str_sourceline :: "nat option \<Rightarrow> string" where
  "str_sourceline None = ''None''"
| "str_sourceline (Some n) = str_nat n"

section \<open>The classes \<^verbatim>\<open>_ElementLog\<close> and \<^verbatim>\<open>_WarningElement\<close>\<close>

record element_log =
  elements :: "(string \<times> element list) list"
  title :: string
  msgs :: "(string \<times> string) list"

text \<open>The first loop of \<^verbatim>\<open>_ElementLog.__init__\<close>: group the elements by tag.\<close>

fun elements_loop ::
  "element list \<Rightarrow> (string \<times> element list) list \<Rightarrow> (string \<times> element list) list" where
  "elements_loop [] d = d"
| "elements_loop (elem # rest) d =
     (if tag elem \<notin> set (dict_keys d)
      then elements_loop rest (dict_set d (tag elem) [elem])
      else elements_loop rest
             (case dict_get d (tag elem) of
                Some es \<Rightarrow> dict_set d (tag elem) (es @ [elem])
              | None \<Rightarrow> d))"

text \<open>The second loop: one message per tag, the slot replaced by the tag.\<close>

fun msgs_loop :: "string \<Rightarrow> element list \<Rightarrow> (string \<times> string) list \<Rightarrow> (string \<times> string) list" where
  "msgs_loop msg [] d = d"
| "msgs_loop msg (elem # rest) d = msgs_loop msg rest (dict_set d (tag elem) (replace_slot msg (tag elem)))"

definition ElementLog_init :: "element list \<Rightarrow> string \<Rightarrow> string \<Rightarrow> element_log" where
  "ElementLog_init elems title' msg =
     \<lparr>elements = elements_loop elems [], title = title', msgs = msgs_loop msg elems []\<rparr>"

text \<open>The first loop of \<^verbatim>\<open>_WarningElement.__init__\<close>: the elements whose tag is in \<^verbatim>\<open>tags\<close>.\<close>

fun collect_tags :: "string list \<Rightarrow> element list \<Rightarrow> element list \<Rightarrow> element list" where
  "collect_tags tags [] tag_list = tag_list"
| "collect_tags tags (element # rest) tag_list =
     collect_tags tags rest (if tag element \<in> set tags then tag_list @ [element] else tag_list)"

text \<open>
  The second loop: the condition is called on every matched element, with two arguments
  when the arity test succeeds and with one otherwise. An exception leaves the loop.
\<close>

fun eval_conditions ::
  "condition \<Rightarrow> element list \<Rightarrow> element list \<Rightarrow> element list \<Rightarrow> error + element list" where
  "eval_conditions cond tag_list [] tag_result = Inr tag_result"
| "eval_conditions cond tag_list (elem # rest) tag_result =
     (if py_eq (signature_parameters cond) (PyInt 2)
      then (case call2 cond elem tag_list of
              Inl err \<Rightarrow> Inl err
            | Inr b \<Rightarrow> eval_conditions cond tag_list rest
                        (if b then tag_result @ [elem] else tag_result))
      else (case call1 cond elem of
              Inl err \<Rightarrow> Inl err
            | Inr b \<Rightarrow> eval_conditions cond tag_list rest
                        (if b then tag_result @ [elem] else tag_result)))"

text \<open>The constructor; its value is the attribute \<^verbatim>\<open>tag_log\<close>.\<close>

definition WarningElement_init ::
  "element \<Rightarrow> string list \<Rightarrow> string \<Rightarrow> string \<Rightarrow> condition \<Rightarrow> error + element_log option" where
  "WarningElement_init elem_root tags title' error_msg cond =
     (let tag_list = collect_tags tags (iter elem_root) [] in
      case eval_conditions cond tag_list tag_list [] of
        Inl err \<Rightarrow> Inl err
      | Inr tag_result \<Rightarrow>
          Inr (if tag_result \<noteq> [] then Some (ElementLog_init tag_result title' error_msg)
               else None))"

section \<open>Rendering: \<^verbatim>\<open>_log_warnings\<close>\<close>

fun lines_loop :: "element list \<Rightarrow> string \<Rightarrow> string" where
  "lines_loop [] result = result"
| "lines_loop (elem # rest) result =
     lines_loop rest (result @ '' '' @ str_sourceline (sourceline elem) @ '','')"

fun tags_loop :: "element_log \<Rightarrow> string list \<Rightarrow> string \<Rightarrow> error + string" where
  "tags_loop log [] result = Inr result"
| "tags_loop log (t # rest) result =
     (case dict_get (elements log) t of
        None \<Rightarrow> Inl (KeyError t)
      | Some es \<Rightarrow>
          (case dict_get (msgs log) t of
             None \<Rightarrow> Inl (KeyError t)
           | Some m \<Rightarrow>
               tags_loop log rest
                 (butlast (lines_loop es (result @ ''Lines'')) @ '': '' @ m @ ''<br>'')))"

fun log_warnings_loop :: "element_log option list \<Rightarrow> string \<Rightarrow> error + string" where
  "log_warnings_loop [] result = Inr result"
| "log_warnings_loop (None # rest) result = log_warnings_loop rest result"
| "log_warnings_loop (Some log # rest) result =
     (case tags_loop log (dict_keys (elements log)) (result @ ''<i>'' @ title log @ ''</i><br><br>'') of
        Inl err \<Rightarrow> Inl err
      | Inr result' \<Rightarrow> log_warnings_loop rest (result' @ ''<br><br>''))"

definition log_warnings :: "element_log option list \<Rightarrow> error + string" where
  "log_warnings logs = log_warnings_loop logs []"

section \<open>The entry point \<^verbatim>\<open>check_warnings\<close>\<close>

definition repeated_tags :: "string list" where
  "repeated_tags = [''moduleName'', ''moduleImage'', ''moduleDependencies'',
     ''requiredInstallFiles'', ''installSteps'', ''conditionalFileInstalls'']"

text \<open>The four lambdas. \<^verbatim>\<open>join(package_path, None)\<close> raises \<^verbatim>\<open>TypeError\<close>.\<close>

definition cond_repeated :: condition where
  "cond_repeated = Lambda2 (\<lambda>elem x. Inr (2 \<le> length (filter (\<lambda>value. tag value = tag elem) x)))"

definition join_attr :: "string \<Rightarrow> string option \<Rightarrow> error + string" where
  "join_attr package_path v =
     (case v of
        None \<Rightarrow> Inl (TypeError ''join() argument must be str, bytes, or os.PathLike object, not NoneType'')
      | Some s \<Rightarrow> Inr (join package_path s))"

definition cond_folder :: "env \<Rightarrow> string \<Rightarrow> condition" where
  "cond_folder E package_path =
     Lambda1 (\<lambda>elem. case join_attr package_path (elem_get elem ''source'') of
                       Inl err \<Rightarrow> Inl err | Inr p \<Rightarrow> Inr (\<not> isdir E p))"

definition cond_file :: "env \<Rightarrow> string \<Rightarrow> condition" where
  "cond_file E package_path =
     Lambda1 (\<lambda>elem. case join_attr package_path (elem_get elem ''source'') of
                       Inl err \<Rightarrow> Inl err | Inr p \<Rightarrow> Inr (\<not> isfile E p))"

definition cond_image :: "env \<Rightarrow> string \<Rightarrow> condition" where
  "cond_image E package_path =
     Lambda1 (\<lambda>elem. case join_attr package_path (elem_get elem ''path'') of
                       Inl err \<Rightarrow> Inl err | Inr p \<Rightarrow> Inr (\<not> isfile E p))"

definition msg_repeated :: string where
  "msg_repeated = ''The tag {} has several occurrences, this may produce unexpected results.''"

definition msg_folder :: string where
  "msg_folder = ''These source folders weren't found inside the package. The installers ignore this so be sure to fix it.''"

definition msg_file :: string where
  "msg_file = ''These source files weren't found inside the package. The installers ignore this so be sure to fix it.''"

definition msg_image :: string where
  "msg_image = ''These images weren't found inside the package. The installers ignore this so be sure to fix it.''"

text \<open>Lines 30 to 35: which tree is validated.\<close>

definition parse_descriptor :: "env \<Rightarrow> string \<Rightarrow> error + element" where
  "parse_descriptor E package_path =
     (case check_fomod E package_path of
        Inl err \<Rightarrow> Inl err
      | Inr fomod_folder \<Rightarrow>
          (case check_file E (join package_path fomod_folder) of
             Inl err \<Rightarrow> Inl err
           | Inr config_file \<Rightarrow>
               etree_parse E (join (join package_path fomod_folder) config_file)))"

definition config_root :: "env \<Rightarrow> string \<Rightarrow> element option \<Rightarrow> error + element" where
  "config_root E package_path elem_tree =
     (if \<not> py_bool_tree elem_tree then parse_descriptor E package_path
      else (case elem_tree of Some t \<Rightarrow> Inr t | None \<Rightarrow> parse_descriptor E package_path))"

text \<open>Lines 37 to 60: the four \<^verbatim>\<open>_WarningElement\<close> objects, built in this order.\<close>

definition element_list :: "env \<Rightarrow> string \<Rightarrow> element \<Rightarrow> error + element_log option list" where
  "element_list E package_path root =
     (case WarningElement_init root repeated_tags ''Repeated Elements'' msg_repeated cond_repeated of
        Inl err \<Rightarrow> Inl err
      | Inr w1 \<Rightarrow>
     (case WarningElement_init root [''folder''] ''Missing Source Folders'' msg_folder
             (cond_folder E package_path) of
        Inl err \<Rightarrow> Inl err
      | Inr w2 \<Rightarrow>
     (case WarningElement_init root [''file''] ''Missing Source Files'' msg_file
             (cond_file E package_path) of
        Inl err \<Rightarrow> Inl err
      | Inr w3 \<Rightarrow>
     (case WarningElement_init root [''moduleImage'', ''image''] ''Missing Images'' msg_image
             (cond_image E package_path) of
        Inl err \<Rightarrow> Inl err
      | Inr w4 \<Rightarrow> Inr [w1, w2, w3, w4]))))"

text \<open>Lines 62 to 69: render, and raise \<^verbatim>\<open>WarningError\<close> when the text is not empty.\<close>

definition report_or_raise :: "element_log option list \<Rightarrow> error + unit" where
  "report_or_raise log_list =
     (case log_warnings log_list of
        Inl err \<Rightarrow> Inl err
      | Inr result \<Rightarrow> if result \<noteq> [] then Inl (WarningError result) else Inr ())"

text \<open>The \<^verbatim>\<open>except\<close> clauses of lines 70 to 73.\<close>

fun except_clauses :: "error + unit \<Rightarrow> error + unit" where
  "except_clauses (Inl (MissingFolderError m)) = Inl (MissingFolderError m)"
| "except_clauses (Inl (MissingFileError m)) = Inl (MissingFileError m)"
| "except_clauses (Inl (ParseError m)) = Inl (ParserError m)"
| "except_clauses r = r"

definition check_warnings :: "env \<Rightarrow> string \<Rightarrow> element option \<Rightarrow> error + unit" where
  "check_warnings E package_path elem_tree =
     except_clauses
       (case config_root E package_path elem_tree of
          Inl err \<Rightarrow> Inl err
        | Inr root \<Rightarrow>
            (case element_list E package_path root of
               Inl err \<Rightarrow> Inl err
             | Inr log_list \<Rightarrow> report_or_raise log_list))"

section \<open>The rules as a table\<close>

text \<open>
  The arguments of the four constructor calls, in the order of the list literal, and the
  sequential construction of a list of \<^verbatim>\<open>_WarningElement\<close> objects from such a table.
  \<open>element_list\<close> is shown below to be this construction on \<open>rule_table\<close>.
\<close>

type_synonym rule = "string list \<times> string \<times> string \<times> condition"

definition rule_table :: "env \<Rightarrow> string \<Rightarrow> rule list" where
  "rule_table E package_path =
     [(repeated_tags, ''Repeated Elements'', msg_repeated, cond_repeated),
      ([''folder''], ''Missing Source Folders'', msg_folder, cond_folder E package_path),
      ([''file''], ''Missing Source Files'', msg_file, cond_file E package_path),
      ([''moduleImage'', ''image''], ''Missing Images'', msg_image, cond_image E package_path)]"

fun build_all :: "element \<Rightarrow> rule list \<Rightarrow> error + element_log option list" where
  "build_all root [] = Inr []"
| "build_all root ((tags, title', msg, cond) # rs) =
     (case WarningElement_init root tags title' msg cond of
        Inl err \<Rightarrow> Inl err
      | Inr w \<Rightarrow> (case build_all root rs of Inl err \<Rightarrow> Inl err | Inr ws \<Rightarrow> Inr (w # ws)))"

text \<open>
  The elements a rule matches, in document order, and those among them on which the
  one-argument call of the condition returns \<^verbatim>\<open>True\<close>.
\<close>

definition matched :: "element \<Rightarrow> string list \<Rightarrow> element list" where
  "matched root tags = filter (\<lambda>e. tag e \<in> set tags) (iter root)"

definition flagged :: "element \<Rightarrow> string list \<Rightarrow> condition \<Rightarrow> element list" where
  "flagged root tags cond = filter (\<lambda>e. call1 cond e = Inr True) (matched root tags)"

definition log_of :: "string \<Rightarrow> string \<Rightarrow> element list \<Rightarrow> element_log option" where
  "log_of t m es = (if es = [] then None else Some (ElementLog_init es t m))"

text \<open>The two exception classes that the first \<^verbatim>\<open>except\<close> clause names.\<close>

fun is_location_error :: "error \<Rightarrow> bool" where
  "is_location_error (MissingFolderError m) = True"
| "is_location_error (MissingFileError m) = True"
| "is_location_error err = False"

section \<open>The report as the specification describes it\<close>

text \<open>
  The specification evaluates a predicate in its own shape: a single-element predicate on
  the element, a group predicate on the element together with the full matched sequence.
  The positive elements of a rule are the matched elements on which this evaluation returns
  true, in document order.
\<close>

fun spec_call :: "condition \<Rightarrow> element \<Rightarrow> element list \<Rightarrow> error + bool" where
  "spec_call (Lambda1 f) e ms = f e"
| "spec_call (Lambda2 f) e ms = f e ms"

definition spec_flagged :: "element \<Rightarrow> string list \<Rightarrow> condition \<Rightarrow> element list" where
  "spec_flagged root tags cond =
     filter (\<lambda>e. spec_call cond e (matched root tags) = Inr True) (matched root tags)"

text \<open>
  The specification describes the report without loops: the positive elements of a rule are
  grouped by tag, the tags in first-seen order and the elements of a group in document
  order; a finding is the title followed by one line per group, listing the source lines
  separated by commas and then the message; the report is the findings of the rules in
  declaration order, a rule without positive elements contributing nothing.
\<close>

fun first_seen :: "'a list \<Rightarrow> 'a list" where
  "first_seen [] = []"
| "first_seen (x # xs) = x # filter (\<lambda>y. y \<noteq> x) (first_seen xs)"

definition spec_groups :: "element list \<Rightarrow> (string \<times> element list) list" where
  "spec_groups es = map (\<lambda>t. (t, filter (\<lambda>e. tag e = t) es)) (first_seen (map tag es))"

fun comma_sep :: "string list \<Rightarrow> string" where
  "comma_sep [] = []"
| "comma_sep [s] = s"
| "comma_sep (s # s' # rest) = s @ '','' @ comma_sep (s' # rest)"

definition spec_group_line :: "string \<Rightarrow> string \<times> element list \<Rightarrow> string" where
  "spec_group_line msg g =
     ''Lines'' @ comma_sep (map (\<lambda>e. '' '' @ str_sourceline (sourceline e)) (snd g))
       @ '': '' @ replace_slot msg (fst g) @ ''<br>''"

definition spec_finding :: "string \<Rightarrow> string \<Rightarrow> element list \<Rightarrow> string" where
  "spec_finding title' msg es =
     (if es = [] then []
      else ''<i>'' @ title' @ ''</i><br><br>''
           @ concat (map (spec_group_line msg) (spec_groups es)) @ ''<br><br>'')"

definition spec_report_of :: "element \<Rightarrow> rule list \<Rightarrow> string" where
  "spec_report_of root rs =
     concat (map (\<lambda>(tags, title', msg, cond). spec_finding title' msg (spec_flagged root tags cond))
                 rs)"

definition spec_report :: "env \<Rightarrow> string \<Rightarrow> element \<Rightarrow> string" where
  "spec_report E package_path root = spec_report_of root (rule_table E package_path)"

section \<open>Concrete inputs\<close>

text \<open>
  Three packages: one whose descriptor is found but cannot be parsed and where no referenced
  file or folder exists, one without a \<^verbatim>\<open>fomod\<close> folder, and one whose \<^verbatim>\<open>fomod\<close> folder has
  no descriptor file.
\<close>

definition env_empty :: env where
  "env_empty =
     \<lparr>check_fomod = (\<lambda>p. Inr ''fomod''),
      check_file = (\<lambda>p. Inr ''ModuleConfig.xml''),
      etree_parse = (\<lambda>p. Inl (ParseError ''Document is empty, line 1, column 1'')),
      isdir = (\<lambda>p. False),
      isfile = (\<lambda>p. False)\<rparr>"

definition env_no_fomod :: env where
  "env_no_fomod =
     \<lparr>check_fomod = (\<lambda>p. Inl (MissingFolderError ''fomod'')),
      check_file = (\<lambda>p. Inl (MissingFileError ''ModuleConfig.xml'')),
      etree_parse = (\<lambda>p. Inl (ParseError ''Document is empty, line 1, column 1'')),
      isdir = (\<lambda>p. False),
      isfile = (\<lambda>p. False)\<rparr>"

definition env_no_file :: env where
  "env_no_file =
     \<lparr>check_fomod = (\<lambda>p. Inr ''fomod''),
      check_file = (\<lambda>p. Inl (MissingFileError ''ModuleConfig.xml'')),
      etree_parse = (\<lambda>p. Inl (ParseError ''Document is empty, line 1, column 1'')),
      isdir = (\<lambda>p. False),
      isfile = (\<lambda>p. False)\<rparr>"

definition tree_one_name :: element where
  "tree_one_name =
     Element ''config'' [] (Some 1) [Element ''moduleName'' [] (Some 2) []]"

definition tree_two_names :: element where
  "tree_two_names =
     Element ''config'' [] (Some 1)
       [Element ''moduleName'' [] (Some 4) [], Element ''moduleName'' [] (Some 9) []]"

definition tree_folder_no_source :: element where
  "tree_folder_no_source = Element ''config'' [] (Some 1) [Element ''folder'' [] (Some 2) []]"

definition tree_bad_then_missing :: element where
  "tree_bad_then_missing =
     Element ''config'' [] (Some 1)
       [Element ''folder'' [] (Some 2) [],
        Element ''file'' [(''source'', ''missing.esp'')] (Some 3) []]"

definition tree_folder_missing :: element where
  "tree_folder_missing =
     Element ''config'' [] (Some 1)
       [Element ''folder'' [(''source'', ''textures'')] (Some 3) []]"

definition tree_missing :: element where
  "tree_missing =
     Element ''config'' [] (Some 1)
       [Element ''image'' [(''path'', ''a.png'')] (Some 2) [],
        Element ''file'' [(''source'', ''a.esp'')] (Some 4) [],
        Element ''folder'' [(''source'', ''textures'')] (Some 5)
          [Element ''file'' [(''source'', ''b.esp'')] (Some 6) []],
        Element ''image'' [(''path'', ''b.png'')] (Some 12) []]"

definition tree_plain :: element where
  "tree_plain = Element ''config'' [] (Some 1) [Element ''installStep'' [] (Some 2) []]"

definition tree_childless :: element where
  "tree_childless = Element ''config'' [] (Some 1) []"

definition tree_root_only_name :: element where
  "tree_root_only_name = Element ''moduleName'' [] (Some 1) []"

definition tree_groups :: element where
  "tree_groups =
     Element ''config'' [] (Some 1)
       [Element ''image'' [(''path'', ''a.png'')] (Some 2) [],
        Element ''moduleImage'' [(''path'', ''m.png'')] (Some 3) [],
        Element ''folder'' [(''source'', ''textures'')] (Some 4) [],
        Element ''image'' [(''path'', ''b.png'')] (Some 7) []]"

text \<open>
  A package whose descriptor on disk is \<open>tree_folder_missing\<close>, and a table of two rules
  with one-parameter conditions, the second with two tags.
\<close>

definition env_disk :: env where
  "env_disk =
     \<lparr>check_fomod = (\<lambda>p. Inr ''fomod''),
      check_file = (\<lambda>p. Inr ''ModuleConfig.xml''),
      etree_parse = (\<lambda>p. Inr tree_folder_missing),
      isdir = (\<lambda>p. False),
      isfile = (\<lambda>p. False)\<rparr>"

definition rules_two :: "rule list" where
  "rules_two =
     [([''folder''], ''Missing Source Folders'', msg_folder, cond_folder env_empty ''pkg''),
      ([''moduleImage'', ''image''], ''Missing Images'', msg_image, cond_image env_empty ''pkg'')]"

section \<open>Facts about the loops\<close>

lemmas eval_defs =
  check_warnings_def config_root_def parse_descriptor_def element_list_def
  WarningElement_init_def ElementLog_init_def report_or_raise_def log_warnings_def
  cond_repeated_def cond_folder_def cond_file_def cond_image_def join_attr_def elem_get_def
  join_def repeated_tags_def dict_keys_def str_nat.simps digit_char_def Let_def

subsection \<open>Matching and evaluating conditions\<close>

lemma collect_tags_filter:
  "collect_tags tags xs acc = acc @ filter (\<lambda>e. tag e \<in> set tags) xs"
  by (induction xs arbitrary: acc) auto

lemma arity_test_false [simp]: "py_eq (signature_parameters cond) (PyInt 2) = False"
  by (cases cond) auto

lemma eval_conditions_Lambda2:
  "eval_conditions (Lambda2 f) tag_list es acc =
     (if es = [] then Inr acc
      else Inl (TypeError ''<lambda>() missing 1 required positional argument: x''))"
  by (cases es) auto

lemma matched_nonempty:
  "e \<in> set (iter root) \<Longrightarrow> tag e \<in> set tags \<Longrightarrow> collect_tags tags (iter root) [] \<noteq> []"
  by (auto simp: collect_tags_filter filter_empty_conv)

lemma WarningElement_repeated_raises:
  assumes "e \<in> set (iter root)" "tag e \<in> set repeated_tags"
  shows "WarningElement_init root repeated_tags t m cond_repeated =
           Inl (TypeError ''<lambda>() missing 1 required positional argument: x'')"
  using matched_nonempty[OF assms]
  by (simp add: WarningElement_init_def cond_repeated_def eval_conditions_Lambda2 Let_def)

lemma eval_conditions_Inr:
  "\<forall>e\<in>set es. \<exists>b. call1 cond e = Inr b \<Longrightarrow>
   eval_conditions cond tagl es acc = Inr (acc @ filter (\<lambda>e. call1 cond e = Inr True) es)"
  by (induction es arbitrary: acc) auto

lemma eval_conditions_Inl:
  "eval_conditions cond tagl es acc = Inl err \<Longrightarrow> \<exists>e\<in>set es. call1 cond e = Inl err"
  by (induction es arbitrary: acc) (auto split: sum.splits)

lemma eval_conditions_raises:
  "e \<in> set es \<Longrightarrow> call1 cond e = Inl err \<Longrightarrow> \<exists>err'. eval_conditions cond tagl es acc = Inl err'"
  by (induction es arbitrary: acc) (auto split: sum.splits)

lemma eval_conditions_Inr_total:
  "eval_conditions cond tagl es acc = Inr res \<Longrightarrow> \<forall>e\<in>set es. \<exists>b. call1 cond e = Inr b"
  by (induction es arbitrary: acc) (auto split: sum.splits)

lemma eval_conditions_Inr_eq:
  assumes "eval_conditions cond tagl es acc = Inr res"
  shows "res = acc @ filter (\<lambda>e. call1 cond e = Inr True) es"
  using eval_conditions_Inr[OF eval_conditions_Inr_total[OF assms], of tagl acc] assms by simp

lemma WarningElement_init_Inr:
  assumes "WarningElement_init root tags t m cond = Inr w"
  shows "w = log_of t m (flagged root tags cond)"
proof -
  from assms obtain res where
    r: "eval_conditions cond (matched root tags) (matched root tags) [] = Inr res"
    and w: "w = (if res \<noteq> [] then Some (ElementLog_init res t m) else None)"
    by (auto simp: WarningElement_init_def Let_def collect_tags_filter matched_def
        split: sum.splits)
  from eval_conditions_Inr_eq[OF r] have "res = flagged root tags cond"
    by (simp add: flagged_def)
  with w show ?thesis by (simp add: log_of_def)
qed

lemma WarningElement_init_Inl:
  assumes "WarningElement_init root tags t m cond = Inl err"
  shows "\<exists>e\<in>set (matched root tags). call1 cond e = Inl err"
  using assms eval_conditions_Inl
  by (fastforce simp: WarningElement_init_def Let_def collect_tags_filter matched_def
      split: sum.splits)

lemma WarningElement_init_raises:
  assumes "e \<in> set (matched root tags)" "call1 cond e = Inl err"
  shows "\<exists>err'. WarningElement_init root tags t m cond = Inl err'"
  using eval_conditions_raises[OF assms, of "matched root tags" "[]"]
  by (auto simp: WarningElement_init_def Let_def collect_tags_filter matched_def)

lemma flagged_eq_spec_flagged:
  assumes "WarningElement_init root tags t m cond = Inr w"
  shows "flagged root tags cond = spec_flagged root tags cond"
proof (cases cond)
  case (Lambda1 f)
  then show ?thesis by (simp add: flagged_def spec_flagged_def)
next
  case (Lambda2 f)
  with assms have "matched root tags = []"
    by (simp add: WarningElement_init_def Let_def collect_tags_filter matched_def
        eval_conditions_Lambda2 split: if_splits)
  then show ?thesis by (simp add: flagged_def spec_flagged_def)
qed

subsection \<open>The list of rules\<close>

lemma element_list_build_all:
  "element_list E package_path root = build_all root (rule_table E package_path)"
  by (simp add: element_list_def rule_table_def split: sum.splits)

lemma build_all_Inr:
  "build_all root rs = Inr logs \<Longrightarrow>
   logs = map (\<lambda>(tags, t, m, cond). log_of t m (spec_flagged root tags cond)) rs"
proof (induction rs arbitrary: logs)
  case Nil
  then show ?case by simp
next
  case (Cons r rs)
  obtain tags t m cond where r: "r = (tags, t, m, cond)" by (cases r)
  from Cons.prems obtain w ws where
    w: "WarningElement_init root tags t m cond = Inr w" and
    ws: "build_all root rs = Inr ws" and l: "logs = w # ws"
    by (auto simp: r split: sum.splits)
  from WarningElement_init_Inr[OF w] flagged_eq_spec_flagged[OF w] Cons.IH[OF ws] l show ?case
    by (simp add: r)
qed

lemma build_all_Inl:
  "build_all root rs = Inl err \<Longrightarrow>
   \<exists>(tags, t, m, cond)\<in>set rs. \<exists>e\<in>set (matched root tags). call1 cond e = Inl err"
proof (induction rs)
  case Nil
  then show ?case by simp
next
  case (Cons r rs)
  obtain tags t m cond where r: "r = (tags, t, m, cond)" by (cases r)
  show ?case
  proof (cases "WarningElement_init root tags t m cond")
    case (Inl err')
    with Cons.prems have "err' = err" by (simp add: r)
    with WarningElement_init_Inl[OF Inl] show ?thesis by (auto simp: r)
  next
    case (Inr w)
    with Cons.prems have "build_all root rs = Inl err"
      by (auto simp: r split: sum.splits)
    from Cons.IH[OF this] show ?thesis by auto
  qed
qed

lemma build_all_raises:
  assumes "(tags, t, m, cond) \<in> set rs" "e \<in> set (matched root tags)"
    "call1 cond e = Inl err"
  shows "\<exists>err'. build_all root rs = Inl err'"
  using assms(1)
proof (induction rs)
  case Nil
  then show ?case by simp
next
  case (Cons r rs)
  obtain tags' t' m' cond' where r: "r = (tags', t', m', cond')" by (cases r)
  show ?case
  proof (cases "r = (tags, t, m, cond)")
    case True
    with WarningElement_init_raises[OF assms(2,3), of t m] show ?thesis by auto
  next
    case False
    with Cons have "\<exists>err'. build_all root rs = Inl err'" by auto
    then show ?thesis by (auto simp: r split: sum.splits)
  qed
qed

lemma call1_rule_table_TypeError:
  assumes "(tags, t, m, cond) \<in> set (rule_table E package_path)" "call1 cond e = Inl err"
  shows "\<exists>msg. err = TypeError msg"
  using assms
  by (auto simp: rule_table_def cond_repeated_def cond_folder_def cond_file_def cond_image_def
      join_attr_def split: option.splits)

lemma element_list_Inl_TypeError:
  assumes "element_list E package_path root = Inl err"
  shows "\<exists>msg. err = TypeError msg"
proof -
  from assms have "build_all root (rule_table E package_path) = Inl err"
    by (simp add: element_list_build_all)
  from build_all_Inl[OF this] call1_rule_table_TypeError show ?thesis
    by fastforce
qed

subsection \<open>Dictionaries and grouping\<close>

lemma dict_get_dict_set:
  "dict_get (dict_set d k v) k' = (if k' = k then Some v else dict_get d k')"
  by (induction d) auto

lemma dict_get_keyed:
  "dict_get (map (\<lambda>t. (t, f t)) ks) k = (if k \<in> set ks then Some (f k) else None)"
  by (induction ks) auto

lemma dict_set_keyed_new:
  "k \<notin> set ks \<Longrightarrow> dict_set (map (\<lambda>t. (t, f t)) ks) k v = map (\<lambda>t. (t, f t)) ks @ [(k, v)]"
  by (induction ks) auto

lemma dict_set_keyed_old:
  "k \<in> set ks \<Longrightarrow> distinct ks \<Longrightarrow>
   dict_set (map (\<lambda>t. (t, f t)) ks) k v = map (\<lambda>t. (t, if t = k then v else f t)) ks"
  by (induction ks) auto

lemma set_first_seen [simp]: "set (first_seen xs) = set xs"
  by (induction xs) auto

lemma distinct_first_seen [simp]: "distinct (first_seen xs)"
  by (induction xs) auto

lemma first_seen_snoc:
  "first_seen (xs @ [x]) = (if x \<in> set xs then first_seen xs else first_seen xs @ [x])"
  by (induction xs) auto

lemma spec_groups_keys: "dict_keys (spec_groups xs) = first_seen (map tag xs)"
  by (simp add: spec_groups_def dict_keys_def comp_def)

lemma spec_groups_snoc_new:
  assumes "tag e \<notin> tag ` set xs"
  shows "spec_groups (xs @ [e]) = spec_groups xs @ [(tag e, [e])]"
proof -
  have ne: "\<forall>x\<in>set xs. tag x \<noteq> tag e"
    using assms by (metis imageI)
  then have "filter (\<lambda>x. tag x = tag e) xs = []"
    by (simp add: filter_empty_conv)
  then show ?thesis
    using assms ne by (auto simp: spec_groups_def first_seen_snoc)
qed

lemma spec_groups_snoc_old:
  assumes "tag e \<in> tag ` set xs"
  shows "spec_groups (xs @ [e]) =
           map (\<lambda>t. (t, if t = tag e then filter (\<lambda>x. tag x = tag e) xs @ [e]
                         else filter (\<lambda>x. tag x = t) xs)) (first_seen (map tag xs))"
  using assms by (auto simp: spec_groups_def first_seen_snoc)

lemma elements_step:
  "elements_loop (e # rest) (spec_groups xs) = elements_loop rest (spec_groups (xs @ [e]))"
proof (cases "tag e \<in> tag ` set xs")
  case False
  then show ?thesis
    by (simp add: spec_groups_keys spec_groups_snoc_new)
       (simp add: spec_groups_def dict_set_keyed_new)
next
  case True
  then have g: "dict_get (spec_groups xs) (tag e) = Some (filter (\<lambda>x. tag x = tag e) xs)"
    by (simp add: spec_groups_def dict_get_keyed)
  from True show ?thesis
    by (simp add: spec_groups_keys g spec_groups_snoc_old)
       (simp add: spec_groups_def dict_set_keyed_old)
qed

lemma elements_loop_spec_groups:
  "elements_loop es (spec_groups xs) = spec_groups (xs @ es)"
proof (induction es arbitrary: xs)
  case Nil
  show ?case by simp
next
  case (Cons e es)
  show ?case using Cons.IH[of "xs @ [e]"] by (simp only: elements_step) simp
qed

lemma elements_loop_eq: "elements_loop es [] = spec_groups es"
  using elements_loop_spec_groups[of es "[]"] by (simp add: spec_groups_def)

lemma dict_get_msgs_loop:
  "dict_get (msgs_loop msg es d) t =
     (if t \<in> tag ` set es then Some (replace_slot msg t) else dict_get d t)"
  by (induction es arbitrary: d) (auto simp: dict_get_dict_set)

lemma elements_ElementLog_init [simp]:
  "elements (ElementLog_init es t m) = spec_groups es"
  by (simp add: ElementLog_init_def elements_loop_eq)

lemma title_ElementLog_init [simp]: "title (ElementLog_init es t m) = t"
  by (simp add: ElementLog_init_def)

lemma msgs_ElementLog_init:
  "dict_get (msgs (ElementLog_init es t m)) k =
     (if k \<in> tag ` set es then Some (replace_slot m k) else None)"
  by (simp add: ElementLog_init_def dict_get_msgs_loop)

subsection \<open>Rendering\<close>

lemma lines_loop_eq:
  "lines_loop es acc = acc @ concat (map (\<lambda>e. '' '' @ str_sourceline (sourceline e) @ '','') es)"
  by (induction es arbitrary: acc) auto

lemma butlast_commas:
  "ss \<noteq> [] \<Longrightarrow> butlast (concat (map (\<lambda>s. s @ '','') ss)) = comma_sep ss"
proof (induction ss rule: comma_sep.induct)
  case 1
  then show ?case by simp
next
  case (2 s)
  show ?case by simp
next
  case (3 s s' rest)
  then show ?case by (simp add: butlast_append)
qed

lemma group_line_eq:
  assumes "es \<noteq> []"
  shows "butlast (lines_loop es (acc @ ''Lines'')) =
         acc @ ''Lines'' @ comma_sep (map (\<lambda>e. '' '' @ str_sourceline (sourceline e)) es)"
proof -
  have "concat (map (\<lambda>e. '' '' @ str_sourceline (sourceline e) @ '','') es) =
        concat (map (\<lambda>s. s @ '','') (map (\<lambda>e. '' '' @ str_sourceline (sourceline e)) es))"
    by (simp add: comp_def)
  moreover have "map (\<lambda>e. '' '' @ str_sourceline (sourceline e)) es \<noteq> []"
    using assms by simp
  ultimately show ?thesis
    using assms butlast_commas[of "map (\<lambda>e. '' '' @ str_sourceline (sourceline e)) es"]
    by (simp add: lines_loop_eq butlast_append)
qed

lemma tags_loop_ElementLog:
  assumes "set ts \<subseteq> tag ` set es"
  shows "tags_loop (ElementLog_init es t m) ts acc =
           Inr (acc @ concat (map (\<lambda>k. spec_group_line m (k, filter (\<lambda>e. tag e = k) es)) ts))"
  using assms
proof (induction ts arbitrary: acc)
  case Nil
  show ?case by simp
next
  case (Cons k ts)
  from Cons.prems have k: "k \<in> tag ` set es" and ts: "set ts \<subseteq> tag ` set es"
    by auto
  from k have ne: "filter (\<lambda>e. tag e = k) es \<noteq> []"
    by (auto simp: filter_empty_conv)
  have g: "dict_get (spec_groups es) k = Some (filter (\<lambda>e. tag e = k) es)"
    using k by (simp add: spec_groups_def dict_get_keyed)
  show ?case
    using k by (simp add: g msgs_ElementLog_init group_line_eq[OF ne] Cons.IH[OF ts]
        spec_group_line_def)
qed

lemma tags_loop_all:
  "tags_loop (ElementLog_init es t m) (dict_keys (spec_groups es)) acc =
     Inr (acc @ concat (map (spec_group_line m) (spec_groups es)))"
proof -
  have "set (dict_keys (spec_groups es)) \<subseteq> tag ` set es"
    by (simp add: spec_groups_keys)
  from tags_loop_ElementLog[OF this, of t m acc] show ?thesis
    by (simp add: spec_groups_def dict_keys_def comp_def)
qed

lemma log_warnings_loop_log_of:
  "log_warnings_loop (map (\<lambda>(t, m, es). log_of t m es) fs) acc =
     Inr (acc @ concat (map (\<lambda>(t, m, es). spec_finding t m es) fs))"
proof (induction fs arbitrary: acc)
  case Nil
  show ?case by simp
next
  case (Cons f fs)
  obtain t m es where f: "f = (t, m, es)" by (cases f)
  show ?case
  proof (cases "es = []")
    case True
    then have "log_of t m es = None" and "spec_finding t m es = []"
      by (simp_all add: log_of_def spec_finding_def)
    then show ?thesis by (simp add: f Cons.IH)
  next
    case False
    then have "log_of t m es = Some (ElementLog_init es t m)"
      and "spec_finding t m es =
             ''<i>'' @ t @ ''</i><br><br>''
             @ concat (map (spec_group_line m) (spec_groups es)) @ ''<br><br>''"
      by (simp_all add: log_of_def spec_finding_def)
    then show ?thesis by (simp add: f tags_loop_all Cons.IH)
  qed
qed

lemma log_warnings_build_all:
  assumes "build_all root rs = Inr logs"
  shows "log_warnings logs = Inr (spec_report_of root rs)"
proof -
  have "logs = map (\<lambda>(t, m, es). log_of t m es)
                 (map (\<lambda>(tags, t, m, cond). (t, m, spec_flagged root tags cond)) rs)"
    using build_all_Inr[OF assms] by (simp add: comp_def case_prod_unfold)
  then show ?thesis
    using log_warnings_loop_log_of[of "map (\<lambda>(tags, t, m, cond). (t, m, spec_flagged root tags cond)) rs" "[]"]
    by (simp add: log_warnings_def spec_report_of_def comp_def case_prod_unfold)
qed

lemma log_warnings_element_list:
  "element_list E package_path root = Inr logs \<Longrightarrow>
   log_warnings logs = Inr (spec_report E package_path root)"
  by (simp add: element_list_build_all spec_report_def log_warnings_build_all)

subsection \<open>Runs that produce a report\<close>

lemma first_seen_uniform:
  "\<forall>x\<in>set xs. x = k \<Longrightarrow> first_seen xs = (if xs = [] then [] else [k])"
  by (induction xs) auto

lemma tag_order_uniform:
  assumes "\<forall>e\<in>set ms. tag e = k" and "set fs \<subseteq> set ms"
  shows "first_seen (map tag fs) =
           filter (\<lambda>t. t \<in> tag ` set fs) (first_seen (map tag ms))"
proof (cases "fs = []")
  case True
  then show ?thesis by simp
next
  case False
  from assms have u: "\<forall>x\<in>set (map tag fs). x = k" "\<forall>x\<in>set (map tag ms). x = k"
    by auto
  from False assms(2) have ms: "ms \<noteq> []" by auto
  from False u(1) have "k \<in> tag ` set fs"
    by (cases fs) auto
  with False ms first_seen_uniform[OF u(1)] first_seen_uniform[OF u(2)]
  show ?thesis by simp
qed

lemma element_list_no_repeated_tag:
  assumes "element_list E package_path root = Inr logs"
  shows "matched root repeated_tags = []"
proof (rule ccontr)
  assume "matched root repeated_tags \<noteq> []"
  then obtain e where "e \<in> set (iter root)" "tag e \<in> set repeated_tags"
    by (auto simp: matched_def filter_empty_conv)
  from WarningElement_repeated_raises[OF this] assms show False
    by (simp add: element_list_def)
qed

lemma rule_table_uniform_tag:
  assumes "matched root repeated_tags = []"
    and "(tags, t, m, cond) \<in> set (rule_table E package_path)"
  shows "\<exists>k. \<forall>e\<in>set (matched root tags). tag e = k"
proof -
  from assms(1) have nr: "\<forall>e\<in>set (iter root). tag e \<notin> set repeated_tags"
    by (auto simp: matched_def filter_empty_conv)
  then have ni: "\<forall>e\<in>set (iter root). tag e \<noteq> ''moduleImage''"
    by (auto simp: repeated_tags_def)
  from assms(2) consider "tags = repeated_tags" | "tags = [''folder'']" | "tags = [''file'']"
    | "tags = [''moduleImage'', ''image'']"
    by (auto simp: rule_table_def)
  then show ?thesis
  proof cases
    case 1
    with assms(1) show ?thesis by simp
  next
    case 2
    then show ?thesis by (auto simp: matched_def)
  next
    case 3
    then show ?thesis by (auto simp: matched_def)
  next
    case 4
    with ni have "\<forall>e\<in>set (matched root tags). tag e = ''image''"
      by (auto simp: matched_def)
    then show ?thesis ..
  qed
qed

lemma spec_flagged_subset: "set (spec_flagged root tags cond) \<subseteq> set (matched root tags)"
  by (auto simp: spec_flagged_def)

lemma run_with_report_builds:
  assumes "config_root E package_path elem_tree = Inr root"
    and "check_warnings E package_path elem_tree = Inl (WarningError report)"
  shows "\<exists>logs. element_list E package_path root = Inr logs"
proof (cases "element_list E package_path root")
  case (Inl err)
  from element_list_Inl_TypeError[OF Inl] obtain msg where "err = TypeError msg" ..
  with Inl assms show ?thesis by (simp add: check_warnings_def)
next
  case (Inr logs)
  then show ?thesis by blast
qed

text \<open>
  On the descriptor with two \<^verbatim>\<open>moduleName\<close> elements the report of the specification lists
  both lines under Repeated Elements.
\<close>

lemma spec_report_two_module_names:
  "spec_report env_empty ''pkg'' tree_two_names =
     ''<i>Repeated Elements</i><br><br>Lines 4, 9: The tag moduleName has several occurrences, this may produce unexpected results.<br><br><br>''"
  by (simp add: spec_report_def spec_report_of_def rule_table_def spec_finding_def
      spec_flagged_def matched_def spec_groups_def spec_group_line_def cond_repeated_def
      cond_folder_def cond_file_def cond_image_def repeated_tags_def msg_repeated_def
      tree_two_names_def str_nat.simps digit_char_def)

section \<open>The arity test and the Repeated Elements rule\<close>

text \<open>
  Claim C1. The specification asks that, when two or more elements share a tag of the
  Repeated Elements rule, every one of them is listed in the Repeated Elements finding.
  The code does not reach a finding: on a descriptor with two \<^verbatim>\<open>moduleName\<close> elements
  (lines 4 and 9) the two-parameter lambda is called with one argument and
  \<^verbatim>\<open>check_warnings\<close> ends in \<^verbatim>\<open>TypeError\<close>.
\<close>

theorem two_module_names_raise:
  "check_warnings env_empty ''pkg'' (Some tree_two_names) =
     Inl (TypeError ''<lambda>() missing 1 required positional argument: x'')"
  by (simp add: eval_defs tree_two_names_def)

text \<open>
  Claim C2. The specification asks that the group predicate is invoked once per matched
  element, each time with the element and the full matched sequence. On a descriptor with
  one \<^verbatim>\<open>moduleName\<close> element the constructor raises \<^verbatim>\<open>TypeError\<close> at the first matched
  element, because the predicate is called with the element alone; the two-argument call
  that the specification describes would have returned \<^verbatim>\<open>False\<close>.
\<close>

theorem group_predicate_called_with_one_argument:
  "WarningElement_init tree_one_name repeated_tags ''Repeated Elements'' msg_repeated cond_repeated =
     Inl (TypeError ''<lambda>() missing 1 required positional argument: x'')
   \<and> call2 cond_repeated (Element ''moduleName'' [] (Some 2) [])
         [Element ''moduleName'' [] (Some 2) []] = Inr False"
  by (simp add: eval_defs tree_one_name_def)

text \<open>
  Claim C10, as stated: every tree that contains an element with a Repeated Elements tag
  makes \<^verbatim>\<open>check_warnings\<close> end in \<^verbatim>\<open>TypeError\<close>. This fails for a supplied tree that consists
  of a single \<^verbatim>\<open>moduleName\<close> element: the root has no child, so line 30 discards it, and in
  a package without a \<^verbatim>\<open>fomod\<close> folder the call ends in \<^verbatim>\<open>MissingFolderError\<close>.
\<close>

theorem root_only_repeated_tag_counterexample:
  "tree_root_only_name \<in> set (iter tree_root_only_name)
   \<and> tag tree_root_only_name \<in> set repeated_tags
   \<and> check_warnings env_no_fomod ''pkg'' (Some tree_root_only_name) =
       Inl (MissingFolderError ''fomod'')"
  by (simp add: eval_defs tree_root_only_name_def env_no_fomod_def)

text \<open>
  Claim C10, amended. Whenever the tree that the run validates (the root that lines 30 to
  35 resolve, \<open>config_root\<close>) contains an element whose tag is one of the Repeated Elements
  tags, \<^verbatim>\<open>check_warnings\<close> ends in a \<^verbatim>\<open>TypeError\<close> that reaches the caller: the arity test is
  false, so the two-parameter lambda is called with one argument, and no \<^verbatim>\<open>except\<close> clause
  catches the exception.
\<close>

theorem repeated_tag_raises_TypeError:
  assumes "config_root E package_path elem_tree = Inr root"
    and "e \<in> set (iter root)" and "tag e \<in> set repeated_tags"
  shows "check_warnings E package_path elem_tree =
           Inl (TypeError ''<lambda>() missing 1 required positional argument: x'')"
  using assms(1) WarningElement_repeated_raises[OF assms(2,3)]
  by (simp add: check_warnings_def element_list_def)

theorem repeated_tag_raises_TypeError_witness:
  "config_root env_empty ''pkg'' (Some tree_one_name) = Inr tree_one_name
   \<and> Element ''moduleName'' [] (Some 2) [] \<in> set (iter tree_one_name)
   \<and> tag (Element ''moduleName'' [] (Some 2) []) \<in> set repeated_tags
   \<and> check_warnings env_empty ''pkg'' (Some tree_one_name) =
       Inl (TypeError ''<lambda>() missing 1 required positional argument: x'')"
proof -
  have h1: "config_root env_empty ''pkg'' (Some tree_one_name) = Inr tree_one_name"
    by (simp add: config_root_def tree_one_name_def)
  have h2: "Element ''moduleName'' [] (Some 2) [] \<in> set (iter tree_one_name)"
    by (simp add: tree_one_name_def)
  have h3: "tag (Element ''moduleName'' [] (Some 2) []) \<in> set repeated_tags"
    by (simp add: repeated_tags_def)
  show ?thesis
    using h1 h2 h3 repeated_tag_raises_TypeError[OF h1 h2 h3] by simp
qed

section \<open>Exceptions raised by a predicate\<close>

text \<open>
  Claim C3, as the specification states it: an element of a file-system rule that lacks
  its attribute is flagged, and \<^verbatim>\<open>check_warnings\<close> never crashes on it. This fails on a
  descriptor whose only \<^verbatim>\<open>folder\<close> element has no \<^verbatim>\<open>source\<close>: the predicate raises
  \<^verbatim>\<open>TypeError\<close> and so does \<^verbatim>\<open>check_warnings\<close>.
\<close>

theorem missing_attribute_counterexample:
  "call1 (cond_folder env_empty ''pkg'') (Element ''folder'' [] (Some 2) []) =
     Inl (TypeError ''join() argument must be str, bytes, or os.PathLike object, not NoneType'')
   \<and> check_warnings env_empty ''pkg'' (Some tree_folder_no_source) =
     Inl (TypeError ''join() argument must be str, bytes, or os.PathLike object, not NoneType'')"
  by (simp add: eval_defs tree_folder_no_source_def)

text \<open>
  Claim C3, amended. For every \<^verbatim>\<open>folder\<close> or \<^verbatim>\<open>file\<close> element without a \<^verbatim>\<open>source\<close>
  attribute, and every \<^verbatim>\<open>moduleImage\<close> or \<^verbatim>\<open>image\<close> element without a \<^verbatim>\<open>path\<close> attribute,
  the predicate of a rule that matches the element raises \<^verbatim>\<open>TypeError\<close> (\<^verbatim>\<open>join\<close> receives
  \<^verbatim>\<open>None\<close>) instead of returning a truth value, and every run of \<^verbatim>\<open>check_warnings\<close> whose
  validated tree (the root that lines 30 to 35 resolve, \<open>config_root\<close>) contains such an
  element ends in \<^verbatim>\<open>TypeError\<close>: the element is not flagged and no report is produced.
  Nothing is said about a supplied tree that the run does not validate.
\<close>

theorem missing_attribute_raises:
  assumes "config_root E package_path elem_tree = Inr root"
    and "e \<in> set (iter root)"
    and "(tag e \<in> {''folder'', ''file''} \<and> elem_get e ''source'' = None)
         \<or> (tag e \<in> {''moduleImage'', ''image''} \<and> elem_get e ''path'' = None)"
  shows "(\<exists>(tags, t, m, cond)\<in>set (rule_table E package_path).
            e \<in> set (matched root tags)
            \<and> call1 cond e = Inl (TypeError
                ''join() argument must be str, bytes, or os.PathLike object, not NoneType''))
         \<and> (\<exists>msg. check_warnings E package_path elem_tree = Inl (TypeError msg))"
proof -
  from assms(2,3) have r:
    "\<exists>(tags, t, m, cond)\<in>set (rule_table E package_path).
        e \<in> set (matched root tags)
        \<and> call1 cond e = Inl (TypeError
            ''join() argument must be str, bytes, or os.PathLike object, not NoneType'')"
    by (auto simp: rule_table_def matched_def cond_folder_def cond_file_def cond_image_def
        join_attr_def)
  then obtain err' where "build_all root (rule_table E package_path) = Inl err'"
    using build_all_raises by fastforce
  then have el: "element_list E package_path root = Inl err'"
    by (simp add: element_list_build_all)
  from element_list_Inl_TypeError[OF el] obtain msg where "err' = TypeError msg" ..
  with el assms(1) have "\<exists>msg. check_warnings E package_path elem_tree = Inl (TypeError msg)"
    by (simp add: check_warnings_def)
  with r show ?thesis by blast
qed

theorem missing_attribute_raises_witness:
  "config_root env_empty ''pkg'' (Some tree_folder_no_source) = Inr tree_folder_no_source
   \<and> Element ''folder'' [] (Some 2) [] \<in> set (iter tree_folder_no_source)
   \<and> tag (Element ''folder'' [] (Some 2) []) \<in> {''folder'', ''file''}
   \<and> elem_get (Element ''folder'' [] (Some 2) []) ''source'' = None
   \<and> (\<exists>msg. check_warnings env_empty ''pkg'' (Some tree_folder_no_source) = Inl (TypeError msg))"
proof -
  have h1: "config_root env_empty ''pkg'' (Some tree_folder_no_source) = Inr tree_folder_no_source"
    by (simp add: config_root_def tree_folder_no_source_def)
  have h2: "Element ''folder'' [] (Some 2) [] \<in> set (iter tree_folder_no_source)"
    by (simp add: tree_folder_no_source_def)
  have h3: "tag (Element ''folder'' [] (Some 2) []) \<in> {''folder'', ''file''}
            \<and> elem_get (Element ''folder'' [] (Some 2) []) ''source'' = None"
    by (simp add: elem_get_def)
  from h3 have h3': "(tag (Element ''folder'' [] (Some 2) []) \<in> {''folder'', ''file''}
            \<and> elem_get (Element ''folder'' [] (Some 2) []) ''source'' = None)
         \<or> (tag (Element ''folder'' [] (Some 2) []) \<in> {''moduleImage'', ''image''}
            \<and> elem_get (Element ''folder'' [] (Some 2) []) ''path'' = None)" ..
  show ?thesis
    using h1 h2 h3 missing_attribute_raises[OF h1 h2 h3'] by blast
qed

text \<open>
  Claim C4, as the specification states it: an exception raised by a predicate makes the
  element count as not matching, and evaluation continues. This fails on a descriptor with
  a \<^verbatim>\<open>folder\<close> element without \<^verbatim>\<open>source\<close> (line 2) followed by a \<^verbatim>\<open>file\<close> element whose
  source does not exist (line 3): the first predicate raises, the second would return
  \<^verbatim>\<open>True\<close>, and the run ends in the exception instead of reporting line 3.
\<close>

theorem predicate_exception_counterexample:
  "call1 (cond_folder env_empty ''pkg'') (Element ''folder'' [] (Some 2) []) =
     Inl (TypeError ''join() argument must be str, bytes, or os.PathLike object, not NoneType'')
   \<and> call1 (cond_file env_empty ''pkg'')
        (Element ''file'' [(''source'', ''missing.esp'')] (Some 3) []) = Inr True
   \<and> check_warnings env_empty ''pkg'' (Some tree_bad_then_missing) =
     Inl (TypeError ''join() argument must be str, bytes, or os.PathLike object, not NoneType'')"
  by (simp add: eval_defs tree_bad_then_missing_def env_empty_def)

text \<open>
  Claim C4, amended. For every validated tree, if the predicate of one of the four rules
  raises an exception on an element the rule matches, the run is aborted: \<^verbatim>\<open>check_warnings\<close>
  ends in an exception that reaches the caller (a \<^verbatim>\<open>TypeError\<close>, the only exception the four
  predicates raise) and no report is produced.
\<close>

theorem predicate_exception_aborts:
  assumes "config_root E package_path elem_tree = Inr root"
    and "(tags, t, m, cond) \<in> set (rule_table E package_path)"
    and "e \<in> set (matched root tags)"
    and "call1 cond e = Inl err"
  shows "\<exists>msg. check_warnings E package_path elem_tree = Inl (TypeError msg)"
proof -
  from build_all_raises[OF assms(2,3,4)] obtain err' where
    "build_all root (rule_table E package_path) = Inl err'" ..
  then have el: "element_list E package_path root = Inl err'"
    by (simp add: element_list_build_all)
  from element_list_Inl_TypeError[OF el] obtain msg where "err' = TypeError msg" ..
  with el assms(1) show ?thesis by (simp add: check_warnings_def)
qed

theorem predicate_exception_aborts_witness:
  "config_root env_empty ''pkg'' (Some tree_bad_then_missing) = Inr tree_bad_then_missing
   \<and> ([''folder''], ''Missing Source Folders'', msg_folder, cond_folder env_empty ''pkg'')
        \<in> set (rule_table env_empty ''pkg'')
   \<and> Element ''folder'' [] (Some 2) [] \<in> set (matched tree_bad_then_missing [''folder''])
   \<and> call1 (cond_folder env_empty ''pkg'') (Element ''folder'' [] (Some 2) []) =
        Inl (TypeError ''join() argument must be str, bytes, or os.PathLike object, not NoneType'')
   \<and> (\<exists>msg. check_warnings env_empty ''pkg'' (Some tree_bad_then_missing) = Inl (TypeError msg))"
proof -
  have h1: "config_root env_empty ''pkg'' (Some tree_bad_then_missing) = Inr tree_bad_then_missing"
    by (simp add: config_root_def tree_bad_then_missing_def)
  have h2: "([''folder''], ''Missing Source Folders'', msg_folder, cond_folder env_empty ''pkg'')
        \<in> set (rule_table env_empty ''pkg'')"
    by (simp add: rule_table_def)
  have h3: "Element ''folder'' [] (Some 2) [] \<in> set (matched tree_bad_then_missing [''folder''])"
    by (simp add: matched_def tree_bad_then_missing_def)
  have h4: "call1 (cond_folder env_empty ''pkg'') (Element ''folder'' [] (Some 2) []) =
        Inl (TypeError ''join() argument must be str, bytes, or os.PathLike object, not NoneType'')"
    by (simp add: cond_folder_def join_attr_def elem_get_def)
  show ?thesis
    using h1 h2 h3 h4 predicate_exception_aborts[OF h1 h2 h3 h4] by blast
qed

section \<open>The outcome of a run\<close>

text \<open>
  Claim C5. A run that reaches rendering (the tree is resolved and the four rules are built
  without an exception) obtains a rendered text, raises \<^verbatim>\<open>WarningError\<close> with that text as
  payload exactly when the text is not empty, and returns normally when it is empty.
\<close>

theorem warning_error_iff_report_nonempty:
  assumes "config_root E package_path elem_tree = Inr root"
    and "element_list E package_path root = Inr logs"
  shows "\<exists>result. log_warnings logs = Inr result
           \<and> check_warnings E package_path elem_tree =
               (if result \<noteq> [] then Inl (WarningError result) else Inr ())"
proof -
  have "log_warnings logs = Inr (spec_report E package_path root)"
    using assms(2) by (rule log_warnings_element_list)
  then show ?thesis
    using assms by (simp add: check_warnings_def report_or_raise_def)
qed

theorem warning_error_iff_report_nonempty_witness:
  "config_root env_empty ''pkg'' (Some tree_folder_missing) = Inr tree_folder_missing
   \<and> element_list env_empty ''pkg'' tree_folder_missing =
       Inr [None,
            Some (ElementLog_init [Element ''folder'' [(''source'', ''textures'')] (Some 3) []]
                    ''Missing Source Folders'' msg_folder),
            None, None]
   \<and> check_warnings env_empty ''pkg'' (Some tree_folder_missing) =
       Inl (WarningError (''<i>Missing Source Folders</i><br><br>Lines 3: '' @ msg_folder
                          @ ''<br><br><br>''))
   \<and> config_root env_empty ''pkg'' (Some tree_plain) = Inr tree_plain
   \<and> element_list env_empty ''pkg'' tree_plain = Inr [None, None, None, None]
   \<and> check_warnings env_empty ''pkg'' (Some tree_plain) = Inr ()"
proof -
  let ?logs = "[None,
            Some (ElementLog_init [Element ''folder'' [(''source'', ''textures'')] (Some 3) []]
                    ''Missing Source Folders'' msg_folder),
            None, None]"
  have h1: "config_root env_empty ''pkg'' (Some tree_folder_missing) = Inr tree_folder_missing"
    by (simp add: config_root_def tree_folder_missing_def)
  have h2: "element_list env_empty ''pkg'' tree_folder_missing = Inr ?logs"
    by (simp add: element_list_def WarningElement_init_def cond_repeated_def cond_folder_def
        cond_file_def cond_image_def join_attr_def elem_get_def join_def repeated_tags_def
        env_empty_def tree_folder_missing_def)
  have r: "log_warnings ?logs =
             Inr (''<i>Missing Source Folders</i><br><br>Lines 3: '' @ msg_folder @ ''<br><br><br>'')"
    by (simp add: log_warnings_def ElementLog_init_def dict_keys_def str_nat.simps digit_char_def
        msg_folder_def)
  have g1: "config_root env_empty ''pkg'' (Some tree_plain) = Inr tree_plain"
    by (simp add: config_root_def tree_plain_def)
  have g2: "element_list env_empty ''pkg'' tree_plain = Inr [None, None, None, None]"
    by (simp add: element_list_def WarningElement_init_def repeated_tags_def tree_plain_def)
  have r': "log_warnings [None, None, None, None] = Inr []"
    by (simp add: log_warnings_def)
  from warning_error_iff_report_nonempty[OF h1 h2] r
  have c1: "check_warnings env_empty ''pkg'' (Some tree_folder_missing) =
       Inl (WarningError (''<i>Missing Source Folders</i><br><br>Lines 3: '' @ msg_folder
                          @ ''<br><br><br>''))"
    by auto
  from warning_error_iff_report_nonempty[OF g1 g2] r'
  have c2: "check_warnings env_empty ''pkg'' (Some tree_plain) = Inr ()"
    by auto
  from h1 h2 g1 g2 c1 c2 show ?thesis by blast
qed

text \<open>
  On the tree that the run validates the property of claim C7 holds: when none of its
  elements has a tag of any rule, every rule yields no finding, the rendered text is empty
  and \<^verbatim>\<open>check_warnings\<close> returns normally.
\<close>

lemma validated_tree_without_match_succeeds:
  assumes "config_root E package_path elem_tree = Inr root"
    and "\<forall>e\<in>set (iter root). \<forall>(tags, t, m, cond)\<in>set (rule_table E package_path). tag e \<notin> set tags"
  shows "element_list E package_path root = Inr [None, None, None, None]
         \<and> log_warnings [None, None, None, None] = Inr []
         \<and> check_warnings E package_path elem_tree = Inr ()"
proof -
  have m: "\<And>tags t m cond. (tags, t, m, cond) \<in> set (rule_table E package_path) \<Longrightarrow>
             collect_tags tags (iter root) [] = []"
    using assms(2) by (fastforce simp: collect_tags_filter filter_empty_conv)
  have w: "\<And>tags t m cond. (tags, t, m, cond) \<in> set (rule_table E package_path) \<Longrightarrow>
             WarningElement_init root tags t m cond = Inr None"
    using m by (simp add: WarningElement_init_def)
  have el: "element_list E package_path root = Inr [None, None, None, None]"
    by (simp add: element_list_def w rule_table_def)
  have r: "log_warnings [None, None, None, None] = Inr []"
    by (simp add: log_warnings_def)
  from el r assms(1) show ?thesis
    by (simp add: check_warnings_def report_or_raise_def)
qed

text \<open>
  Claim C7. The specification asks that a tree without any element of a rule's tags makes
  \<^verbatim>\<open>check_warnings\<close> return normally with no report. A supplied root without children has no
  such element, but line 30 takes it for an absent tree: the descriptor of the package is
  parsed and validated instead, and when that descriptor names a missing folder the call
  raises \<^verbatim>\<open>WarningError\<close> with a report about a tree that was not supplied.
\<close>

theorem childless_tree_reports_package_descriptor:
  "map tag (iter tree_childless) = [''config'']
   \<and> check_warnings env_disk ''pkg'' (Some tree_childless) =
       Inl (WarningError (''<i>Missing Source Folders</i><br><br>Lines 3: '' @ msg_folder
                          @ ''<br><br><br>''))"
  by (simp add: eval_defs tree_childless_def env_disk_def tree_folder_missing_def msg_folder_def)

text \<open>
  Claim C8. In every run that produces a report, the report is the text the specification
  describes: the findings of the rules in declaration order (Repeated Elements, Missing
  Source Folders, Missing Source Files, Missing Images), within a finding one line per tag
  group, and within a line the source lines of the flagged elements of that tag in document
  order. The first part of the theorem holds for every table of rules: whenever the
  constructors succeed, the rendered text is the concatenation of the findings in the order
  of the table, each finding grouping its flagged elements by tag in the order the tags are
  first seen among them. The second part is the run of \<^verbatim>\<open>check_warnings\<close>: there the
  validated tree has no element of a Repeated Elements tag (such an element ends the run in
  \<^verbatim>\<open>TypeError\<close>), so a Repeated Elements finding never occurs in a produced report, and for
  every rule the order of the tag groups is also the order in which the tags were first
  matched.
\<close>

theorem report_order:
  "(build_all root rs = Inr logs \<longrightarrow> log_warnings logs = Inr (spec_report_of root rs))
   \<and> (config_root E package_path elem_tree = Inr root'
        \<and> check_warnings E package_path elem_tree = Inl (WarningError report)
      \<longrightarrow> report = spec_report E package_path root'
          \<and> matched root' repeated_tags = []
          \<and> (\<forall>(tags, t, m, cond)\<in>set (rule_table E package_path).
                first_seen (map tag (spec_flagged root' tags cond)) =
                  filter (\<lambda>k. k \<in> tag ` set (spec_flagged root' tags cond))
                         (first_seen (map tag (matched root' tags)))))
   \<and> map (\<lambda>(tags, t, m, cond). t) (rule_table E package_path) =
         [''Repeated Elements'', ''Missing Source Folders'', ''Missing Source Files'',
          ''Missing Images'']"
proof (intro conjI impI)
  assume "build_all root rs = Inr logs"
  then show "log_warnings logs = Inr (spec_report_of root rs)"
    by (rule log_warnings_build_all)
next
  assume a: "config_root E package_path elem_tree = Inr root'
        \<and> check_warnings E package_path elem_tree = Inl (WarningError report)"
  then have a1: "config_root E package_path elem_tree = Inr root'"
    and a2: "check_warnings E package_path elem_tree = Inl (WarningError report)"
    by simp_all
  from run_with_report_builds[OF a1 a2] obtain logs where
    el: "element_list E package_path root' = Inr logs" ..
  from log_warnings_element_list[OF el] el a1 a2
  show "report = spec_report E package_path root'"
    by (simp add: check_warnings_def report_or_raise_def split: if_splits)
  show nr: "matched root' repeated_tags = []"
    using el by (rule element_list_no_repeated_tag)
  show "\<forall>(tags, t, m, cond)\<in>set (rule_table E package_path).
                first_seen (map tag (spec_flagged root' tags cond)) =
                  filter (\<lambda>k. k \<in> tag ` set (spec_flagged root' tags cond))
                         (first_seen (map tag (matched root' tags)))"
  proof (clarify)
    fix tags t m cond
    assume r: "(tags, t, m, cond) \<in> set (rule_table E package_path)"
    from rule_table_uniform_tag[OF nr r] obtain k where
      "\<forall>e\<in>set (matched root' tags). tag e = k" ..
    from tag_order_uniform[OF this spec_flagged_subset]
    show "first_seen (map tag (spec_flagged root' tags cond)) =
                  filter (\<lambda>k. k \<in> tag ` set (spec_flagged root' tags cond))
                         (first_seen (map tag (matched root' tags)))" .
  qed
next
  show "map (\<lambda>(tags, t, m, cond). t) (rule_table E package_path) =
         [''Repeated Elements'', ''Missing Source Folders'', ''Missing Source Files'',
          ''Missing Images'']"
    by (simp add: rule_table_def)
qed

text \<open>
  The witness: a table of two rules on a tree where the second rule flags two tags
  (\<^verbatim>\<open>image\<close> at lines 2 and 7, \<^verbatim>\<open>moduleImage\<close> at line 3), and a run of \<^verbatim>\<open>check_warnings\<close>
  whose report has three findings.
\<close>

theorem report_order_witness:
  "build_all tree_groups rules_two =
     Inr [Some (ElementLog_init [Element ''folder'' [(''source'', ''textures'')] (Some 4) []]
                  ''Missing Source Folders'' msg_folder),
          Some (ElementLog_init [Element ''image'' [(''path'', ''a.png'')] (Some 2) [],
                                 Element ''moduleImage'' [(''path'', ''m.png'')] (Some 3) [],
                                 Element ''image'' [(''path'', ''b.png'')] (Some 7) []]
                  ''Missing Images'' msg_image)]
   \<and> log_warnings
        [Some (ElementLog_init [Element ''folder'' [(''source'', ''textures'')] (Some 4) []]
                  ''Missing Source Folders'' msg_folder),
         Some (ElementLog_init [Element ''image'' [(''path'', ''a.png'')] (Some 2) [],
                                Element ''moduleImage'' [(''path'', ''m.png'')] (Some 3) [],
                                Element ''image'' [(''path'', ''b.png'')] (Some 7) []]
                  ''Missing Images'' msg_image)] =
       Inr (''<i>Missing Source Folders</i><br><br>Lines 4: '' @ msg_folder @ ''<br><br><br>''
            @ ''<i>Missing Images</i><br><br>Lines 2, 7: '' @ msg_image
            @ ''<br>Lines 3: '' @ msg_image @ ''<br><br><br>'')
   \<and> config_root env_empty ''pkg'' (Some tree_missing) = Inr tree_missing
   \<and> check_warnings env_empty ''pkg'' (Some tree_missing) =
       Inl (WarningError
         (''<i>Missing Source Folders</i><br><br>Lines 5: '' @ msg_folder @ ''<br><br><br>''
          @ ''<i>Missing Source Files</i><br><br>Lines 4, 6: '' @ msg_file @ ''<br><br><br>''
          @ ''<i>Missing Images</i><br><br>Lines 2, 12: '' @ msg_image @ ''<br><br><br>''))
   \<and> spec_report env_empty ''pkg'' tree_missing =
         ''<i>Missing Source Folders</i><br><br>Lines 5: '' @ msg_folder @ ''<br><br><br>''
          @ ''<i>Missing Source Files</i><br><br>Lines 4, 6: '' @ msg_file @ ''<br><br><br>''
          @ ''<i>Missing Images</i><br><br>Lines 2, 12: '' @ msg_image @ ''<br><br><br>''
   \<and> matched tree_missing repeated_tags = []"
proof -
  let ?logs = "[Some (ElementLog_init [Element ''folder'' [(''source'', ''textures'')] (Some 4) []]
                  ''Missing Source Folders'' msg_folder),
         Some (ElementLog_init [Element ''image'' [(''path'', ''a.png'')] (Some 2) [],
                                Element ''moduleImage'' [(''path'', ''m.png'')] (Some 3) [],
                                Element ''image'' [(''path'', ''b.png'')] (Some 7) []]
                  ''Missing Images'' msg_image)]"
  let ?g = "''<i>Missing Source Folders</i><br><br>Lines 4: '' @ msg_folder @ ''<br><br><br>''
            @ ''<i>Missing Images</i><br><br>Lines 2, 7: '' @ msg_image
            @ ''<br>Lines 3: '' @ msg_image @ ''<br><br><br>''"
  let ?r = "''<i>Missing Source Folders</i><br><br>Lines 5: '' @ msg_folder @ ''<br><br><br>''
          @ ''<i>Missing Source Files</i><br><br>Lines 4, 6: '' @ msg_file @ ''<br><br><br>''
          @ ''<i>Missing Images</i><br><br>Lines 2, 12: '' @ msg_image @ ''<br><br><br>''"
  have b: "build_all tree_groups rules_two = Inr ?logs"
    by (simp add: rules_two_def tree_groups_def WarningElement_init_def cond_folder_def
        cond_image_def join_attr_def elem_get_def join_def env_empty_def)
  have s: "spec_report_of tree_groups rules_two = ?g"
    by (simp add: spec_report_of_def rules_two_def tree_groups_def spec_finding_def
        spec_flagged_def matched_def spec_groups_def spec_group_line_def cond_folder_def
        cond_image_def join_attr_def elem_get_def join_def env_empty_def msg_folder_def
        msg_image_def str_nat.simps digit_char_def)
  have h1: "config_root env_empty ''pkg'' (Some tree_missing) = Inr tree_missing"
    by (simp add: config_root_def tree_missing_def)
  have h2: "check_warnings env_empty ''pkg'' (Some tree_missing) = Inl (WarningError ?r)"
    by (simp add: eval_defs env_empty_def tree_missing_def msg_folder_def msg_file_def msg_image_def)
  from report_order[of tree_groups rules_two ?logs env_empty "''pkg''" "Some tree_missing"
      tree_missing ?r] b s h1 h2
  show ?thesis by simp
qed

section \<open>Which tree is validated, and the errors of the collaborators\<close>

text \<open>
  Claim C6. The specification asks that a supplied tree is the one validated and that the
  collaborators are not invoked. The test \<^verbatim>\<open>if not elem_tree\<close> takes a supplied root element
  without children for an absent one: in a package without a \<^verbatim>\<open>fomod\<close> folder the call
  with such a tree ends in the \<^verbatim>\<open>MissingFolderError\<close> of \<^verbatim>\<open>check_fomod\<close>, whereas validating
  the supplied tree would have returned normally.
\<close>

theorem childless_tree_is_ignored:
  "check_warnings env_no_fomod ''pkg'' (Some tree_childless) = Inl (MissingFolderError ''fomod'')
   \<and> element_list env_no_fomod ''pkg'' tree_childless = Inr [None, None, None, None]
   \<and> report_or_raise [None, None, None, None] = Inr ()"
  by (simp add: eval_defs tree_childless_def env_no_fomod_def)

text \<open>
  Claim C9. In a call without a tree, a \<^verbatim>\<open>MissingFolderError\<close> or \<^verbatim>\<open>MissingFileError\<close> raised
  by \<^verbatim>\<open>check_fomod\<close> or by \<^verbatim>\<open>check_file\<close> reaches the caller unchanged, and a \<^verbatim>\<open>ParseError\<close> of
  the parser reaches the caller as a \<^verbatim>\<open>ParserError\<close> carrying its message.
\<close>

theorem location_errors_propagate:
  "(check_fomod E package_path = Inl err \<and> is_location_error err
      \<longrightarrow> check_warnings E package_path None = Inl err)
   \<and> (check_fomod E package_path = Inr fomod_folder
      \<and> check_file E (join package_path fomod_folder) = Inl err \<and> is_location_error err
      \<longrightarrow> check_warnings E package_path None = Inl err)
   \<and> (check_fomod E package_path = Inr fomod_folder
      \<and> check_file E (join package_path fomod_folder) = Inr config_file
      \<and> etree_parse E (join (join package_path fomod_folder) config_file) = Inl (ParseError m)
      \<longrightarrow> check_warnings E package_path None = Inl (ParserError m))"
  by (cases err) (auto simp: check_warnings_def config_root_def parse_descriptor_def)

theorem location_errors_propagate_witness:
  "check_fomod env_no_fomod ''pkg'' = Inl (MissingFolderError ''fomod'')
   \<and> check_warnings env_no_fomod ''pkg'' None = Inl (MissingFolderError ''fomod'')
   \<and> check_fomod env_no_file ''pkg'' = Inr ''fomod''
   \<and> check_file env_no_file (join ''pkg'' ''fomod'') = Inl (MissingFileError ''ModuleConfig.xml'')
   \<and> check_warnings env_no_file ''pkg'' None = Inl (MissingFileError ''ModuleConfig.xml'')
   \<and> check_file env_empty (join ''pkg'' ''fomod'') = Inr ''ModuleConfig.xml''
   \<and> etree_parse env_empty (join (join ''pkg'' ''fomod'') ''ModuleConfig.xml'') =
        Inl (ParseError ''Document is empty, line 1, column 1'')
   \<and> check_warnings env_empty ''pkg'' None = Inl (ParserError ''Document is empty, line 1, column 1'')"
  using
    location_errors_propagate[of env_no_fomod "''pkg''" "MissingFolderError ''fomod''"]
    location_errors_propagate[of env_no_file "''pkg''" "MissingFileError ''ModuleConfig.xml''"
      "''fomod''"]
    location_errors_propagate[of env_empty "''pkg''" _ "''fomod''" "''ModuleConfig.xml''"
      "''Document is empty, line 1, column 1''"]
  by (simp add: env_no_fomod_def env_no_file_def env_empty_def)

end
